theory Spec2Isabelle
  imports Complex_Main "HOL-Library.Sublist"
begin

section \<open>Data model\<close>

text \<open>
  The analytics service of \<^verbatim>\<open>src/src/services/tracker.py\<close>. Python floats are modelled
  as real numbers: every statement below is about the exact arithmetic of the formulas the
  code writes down, not about the rounding of IEEE doubles. Python strings are modelled
  as \<^typ>\<open>string\<close> (byte strings, ASCII case conversion).
\<close>

text \<open>
  The exceptions the modelled code can raise. \<open>NotEnoughData what need found\<close> is the
  \<^verbatim>\<open>ValueError("Not enough data for <what>. Need at least <need> records, but found
  <found>.")\<close> of the two analytics operations; \<open>StatisticsError\<close> is raised by
  \<^verbatim>\<open>statistics.mean\<close> and \<^verbatim>\<open>statistics.stdev\<close> on too few data points;
  \<open>EmptySequence\<close> is the \<^verbatim>\<open>ValueError\<close> of \<^verbatim>\<open>max\<close>/\<^verbatim>\<open>min\<close> on an empty list;
  \<open>IndexError\<close> is an out-of-range list index; \<open>RuntimeError\<close> is what the price client
  raises when a request fails.
\<close>

datatype error =
    NotEnoughData string nat nat
  | StatisticsError
  | EmptySequence
  | IndexError
  | RuntimeError string

definition bindE :: "error + 'a \<Rightarrow> ('a \<Rightarrow> error + 'b) \<Rightarrow> error + 'b" where
  "bindE m f = (case m of Inl e \<Rightarrow> Inl e | Inr x \<Rightarrow> f x)"

text \<open>\<^verbatim>\<open>models/coin.py\<close>: the frozen dataclasses \<^verbatim>\<open>CoinPrice\<close> and \<^verbatim>\<open>TrackedCoin\<close>.\<close>

record coin_price =
  coin_id :: string
  price :: real
  timestamp :: int

record tracked_coin =
  tc_coin_id :: string
  tc_symbol :: string
  tc_name :: string
  tc_is_active :: bool

text \<open>\<^verbatim>\<open>services/tracker.py\<close>: the report dataclasses.\<close>

record market_analytics =
  ma_coin_id :: string
  ma_record_count :: nat
  open_price :: real
  close_price :: real
  high_price :: real
  low_price :: real
  average_price :: real
  ma_net_change_percent :: real

record trend_analysis =
  ta_coin_id :: string
  ta_record_count :: nat
  trend :: string
  volatility :: string
  momentum_score :: real
  ta_net_change_percent :: real

section \<open>Python built-ins and the statistics module\<close>

text \<open>List indexing \<^verbatim>\<open>xs[i]\<close>: a negative index counts from the end.\<close>

definition py_getitem :: "'a list \<Rightarrow> int \<Rightarrow> error + 'a" where
  "py_getitem xs i =
     (if 0 \<le> i \<and> i < int (length xs) then Inr (xs ! nat i)
      else if i < 0 \<and> - int (length xs) \<le> i then Inr (xs ! nat (int (length xs) + i))
      else Inl IndexError)"

definition py_max :: "real list \<Rightarrow> error + real" where
  "py_max xs = (case xs of [] \<Rightarrow> Inl EmptySequence | y # ys \<Rightarrow> Inr (fold max ys y))"

definition py_min :: "real list \<Rightarrow> error + real" where
  "py_min xs = (case xs of [] \<Rightarrow> Inl EmptySequence | y # ys \<Rightarrow> Inr (fold min ys y))"

text \<open>\<^verbatim>\<open>statistics.mean\<close>: the arithmetic mean; raises on empty data.\<close>

definition statistics_mean :: "real list \<Rightarrow> error + real" where
  "statistics_mean xs =
     (if xs = [] then Inl StatisticsError else Inr (sum_list xs / real (length xs)))"

text \<open>
  \<^verbatim>\<open>statistics.stdev\<close>: the square root of the sample variance (sum of squared deviations
  from the mean over \<open>n - 1\<close>); raises on fewer than two data points.
\<close>

definition statistics_stdev :: "real list \<Rightarrow> error + real" where
  "statistics_stdev xs =
     (if length xs < 2 then Inl StatisticsError
      else let m = sum_list xs / real (length xs)
           in Inr (sqrt (sum_list (map (\<lambda>x. (x - m)\<^sup>2) xs) / real (length xs - 1))))"

section \<open>The calculators\<close>

text \<open>\<^verbatim>\<open>CryptoTracker._calculate_volatility\<close>.\<close>

definition calculate_volatility :: "real list \<Rightarrow> error + string" where
  "calculate_volatility prices =
     (if length prices < 2 then Inr ''Unknown''
      else bindE (statistics_mean prices) (\<lambda>mean_price.
           bindE (statistics_stdev prices) (\<lambda>std_dev.
             let coeff_var = (if mean_price \<noteq> 0 then std_dev / mean_price else 0)
             in if coeff_var < 0.01 then Inr ''Low''
                else if coeff_var < 0.05 then Inr ''Medium''
                else Inr ''High'')))"

text \<open>
  \<^verbatim>\<open>CryptoTracker._calculate_trend\<close>. The sums over \<^verbatim>\<open>range(n)\<close> are integer sums; the
  division raises \<^verbatim>\<open>ZeroDivisionError\<close> exactly when the integer denominator is zero, and
  the handler then sets the slope to zero.
\<close>

definition calculate_trend :: "real list \<Rightarrow> error + (string \<times> real)" where
  "calculate_trend prices =
     (let n = length prices;
          sum_x = sum_list (map int [0..<n]);
          sum_y = sum_list prices;
          sum_xy = sum_list (map (\<lambda>i. real i * prices ! i) [0..<n]);
          sum_x2 = sum_list (map (\<lambda>i. (int i)\<^sup>2) [0..<n]);
          denom = int n * sum_x2 - sum_x\<^sup>2;
          slope = (if denom = 0 then 0
                   else (real n * sum_xy - real_of_int sum_x * sum_y) / real_of_int denom)
      in bindE (statistics_mean prices) (\<lambda>mean_price.
           let norm_slope = (if mean_price \<noteq> 0 then slope / mean_price * 100 else 0);
               label = (if norm_slope > 0.5 then ''Strong Uptrend''
                        else if norm_slope > 0.1 then ''Uptrend''
                        else if norm_slope < - 0.5 then ''Strong Downtrend''
                        else if norm_slope < - 0.1 then ''Downtrend''
                        else ''Sideways'')
           in Inr (label, norm_slope)))"

text \<open>\<^verbatim>\<open>CryptoTracker._calculate_momentum\<close>.\<close>

definition calculate_momentum :: "real \<Rightarrow> real \<Rightarrow> real" where
  "calculate_momentum net_change_percent norm_slope =
     (let momentum = \<bar>net_change_percent\<bar> * 0.5 + \<bar>norm_slope\<bar> * 20
      in min (max momentum 0) 10)"

section \<open>The analytics operations\<close>

text \<open>
  \<^verbatim>\<open>CryptoTracker.get_price_history\<close> runs the database query
  \<^verbatim>\<open>CoinPriceDocument.objects(coin_id=...).order_by("-timestamp").limit(limit)\<close>. The
  database is a collaborator outside the repository: the query is a parameter of the
  model, a function from coin id and limit to the records it returns.
\<close>

type_synonym price_store = "string \<Rightarrow> int \<Rightarrow> coin_price list"

definition get_price_history :: "price_store \<Rightarrow> string \<Rightarrow> int \<Rightarrow> coin_price list" where
  "get_price_history objects cid limit = objects cid limit"

text \<open>\<^verbatim>\<open>CryptoTracker.get_market_analytics\<close>.\<close>

definition get_market_analytics ::
    "price_store \<Rightarrow> string \<Rightarrow> int \<Rightarrow> error + market_analytics" where
  "get_market_analytics objects cid limit =
     (let history = get_price_history objects cid limit;
          actual_count = length history
      in if actual_count < 2 then Inl (NotEnoughData ''market analysis'' 2 actual_count)
         else
           let prices = map price history
           in bindE (py_getitem prices (- 1)) (\<lambda>opn.
              bindE (py_getitem prices 0) (\<lambda>cls.
                let net_change = (if opn \<noteq> 0 then (cls - opn) / opn * 100 else 0)
                in bindE (py_max prices) (\<lambda>hi.
                   bindE (py_min prices) (\<lambda>lo.
                   bindE (statistics_mean prices) (\<lambda>avg.
                     Inr \<lparr>ma_coin_id = cid, ma_record_count = actual_count,
                          open_price = opn, close_price = cls,
                          high_price = hi, low_price = lo, average_price = avg,
                          ma_net_change_percent = net_change\<rparr>))))))"

text \<open>\<^verbatim>\<open>CryptoTracker.get_trend_analysis\<close>.\<close>

definition get_trend_analysis ::
    "price_store \<Rightarrow> string \<Rightarrow> int \<Rightarrow> error + trend_analysis" where
  "get_trend_analysis objects cid limit =
     (let history = get_price_history objects cid limit
      in if length history < 4
         then Inl (NotEnoughData ''trend analysis'' 4 (length history))
         else
           let prices = map price history
           in bindE (calculate_volatility prices) (\<lambda>vol.
              bindE (calculate_trend prices) (\<lambda>(label, norm_slope).
              bindE (py_getitem prices (- 1)) (\<lambda>opn.
              bindE (py_getitem prices 0) (\<lambda>cls.
                let net_change_percent =
                      (if opn \<noteq> 0 then (cls - opn) / opn * 100 else 0);
                    momentum = calculate_momentum net_change_percent norm_slope
                in Inr \<lparr>ta_coin_id = cid, ta_record_count = length prices,
                        trend = label, volatility = vol,
                        momentum_score = momentum,
                        ta_net_change_percent = net_change_percent\<rparr>)))))"

section \<open>Coin search\<close>

text \<open>
  A catalog entry is a Python dict with string keys and string values, modelled as an
  association list read with \<open>map_of\<close>. \<^verbatim>\<open>d.get(k, default)\<close> is \<open>dict_get\<close>.
\<close>

type_synonym coin = "(string \<times> string) list"

definition dict_get :: "coin \<Rightarrow> string \<Rightarrow> string \<Rightarrow> string" where
  "dict_get d k dflt = (case map_of d k of None \<Rightarrow> dflt | Some v \<Rightarrow> v)"

text \<open>\<^verbatim>\<open>str.lower\<close> on ASCII: the letters A to Z (codes 65 to 90) move up by 32.\<close>

definition lower_char :: "char \<Rightarrow> char" where
  "lower_char c =
     (let n = (of_char c :: nat) in if 65 \<le> n \<and> n \<le> 90 then char_of (n + 32) else c)"

definition str_lower :: "string \<Rightarrow> string" where
  "str_lower s = map lower_char s"

definition mk_coin :: "string \<Rightarrow> string \<Rightarrow> string \<Rightarrow> coin" where
  "mk_coin i s n = [(''id'', i), (''symbol'', s), (''name'', n)]"

text \<open>The priority table \<^verbatim>\<open>MAJOR_COINS\<close>, keyed by id and by symbol.\<close>

definition MAJOR_COINS :: "(string \<times> coin) list" where
  "MAJOR_COINS =
     [(''bitcoin'', mk_coin ''bitcoin'' ''btc'' ''Bitcoin''),
      (''btc'', mk_coin ''bitcoin'' ''btc'' ''Bitcoin''),
      (''ethereum'', mk_coin ''ethereum'' ''eth'' ''Ethereum''),
      (''eth'', mk_coin ''ethereum'' ''eth'' ''Ethereum''),
      (''solana'', mk_coin ''solana'' ''sol'' ''Solana''),
      (''sol'', mk_coin ''solana'' ''sol'' ''Solana''),
      (''ripple'', mk_coin ''ripple'' ''xrp'' ''Ripple''),
      (''xrp'', mk_coin ''ripple'' ''xrp'' ''Ripple''),
      (''cardano'', mk_coin ''cardano'' ''ada'' ''Cardano''),
      (''ada'', mk_coin ''cardano'' ''ada'' ''Cardano''),
      (''dogecoin'', mk_coin ''dogecoin'' ''doge'' ''Dogecoin''),
      (''doge'', mk_coin ''dogecoin'' ''doge'' ''Dogecoin''),
      (''binancecoin'', mk_coin ''binancecoin'' ''bnb'' ''Binance Coin''),
      (''bnb'', mk_coin ''binancecoin'' ''bnb'' ''Binance Coin'')]"

definition name_blacklist :: "string list" where
  "name_blacklist = [''-peg'', ''wrapped'', ''token'', ''staked'']"

text \<open>
  The scan of \<^verbatim>\<open>CryptoTracker.search_coins\<close> over the catalog: each \<^verbatim>\<open>continue\<close> is a
  recursive call with the results unchanged, the \<^verbatim>\<open>break\<close> returns the results at once.
  \<^verbatim>\<open>kw in name\<close> is the contiguous-substring test \<open>sublist\<close>.
\<close>

fun search_loop :: "string \<Rightarrow> int \<Rightarrow> coin list \<Rightarrow> coin list \<Rightarrow> coin list" where
  "search_loop query limit [] results = results"
| "search_loop query limit (coin # rest) results =
     (let symbol = str_lower (dict_get coin ''symbol'' []);
          cid = str_lower (dict_get coin ''id'' []);
          name = str_lower (dict_get coin ''name'' [])
      in if symbol = [] \<or> cid = [] \<or> name = [] then search_loop query limit rest results
         else if CHR ''.'' \<in> set symbol \<or> length symbol > 10
           then search_loop query limit rest results
         else if list_ex (\<lambda>kw. sublist kw name) name_blacklist
           then search_loop query limit rest results
         else if query = symbol \<or> query = cid \<or> query = name
           then (let results' = results @ [coin]
                 in if int (length results') \<ge> limit then results'
                    else search_loop query limit rest results')
         else search_loop query limit rest results)"

text \<open>
  \<^verbatim>\<open>CryptoTracker.search_coins\<close>. The first argument is the outcome of the client call
  \<^verbatim>\<open>get_supported_coins_with_details()\<close>, the catalog or the error it raises; the call is
  made only when the query misses the priority table.
\<close>

definition search_coins :: "error + coin list \<Rightarrow> string \<Rightarrow> int \<Rightarrow> error + coin list" where
  "search_coins get_supported_coins_with_details query limit =
     (let query = str_lower query
      in case map_of MAJOR_COINS query of
           Some major \<Rightarrow> Inr [major]
         | None \<Rightarrow>
             bindE get_supported_coins_with_details (\<lambda>all_coins.
               Inr (search_loop query limit all_coins [])))"

section \<open>Recording prices\<close>

text \<open>
  The state the recording operations work on: the tracked coins in the order
  \<^verbatim>\<open>list_tracked_coins\<close> returns them, the price snapshots saved so far in the order of
  saving, and the clock read by \<^verbatim>\<open>datetime.now\<close> (it advances with every reading).
  The price client is a parameter, \<^verbatim>\<open>get_price\<close>: the price of a coin or the error raised.
  Saving a document is modelled as succeeding.
\<close>

record tracker_state =
  tracked :: "tracked_coin list"
  price_docs :: "coin_price list"
  clock :: int

definition list_tracked_coins :: "tracker_state \<Rightarrow> tracked_coin list" where
  "list_tracked_coins st = tracked st"

definition record_price_for_coin ::
    "(string \<Rightarrow> error + real) \<Rightarrow> tracker_state \<Rightarrow> string
       \<Rightarrow> (error + coin_price) \<times> tracker_state" where
  "record_price_for_coin get_price st cid =
     (case get_price cid of
        Inl exc \<Rightarrow> (Inl exc, st)
      | Inr p \<Rightarrow>
          let doc = \<lparr>coin_id = cid, price = p, timestamp = clock st\<rparr>
          in (Inr doc, st\<lparr>price_docs := price_docs st @ [doc], clock := clock st + 1\<rparr>))"

text \<open>
  The loop of \<^verbatim>\<open>record_prices_for_all_tracked\<close>: the handler \<^verbatim>\<open>except Exception\<close> logs the
  error and goes on with the next coin.
\<close>

fun record_loop ::
    "(string \<Rightarrow> error + real) \<Rightarrow> tracked_coin list \<Rightarrow> coin_price list \<Rightarrow> tracker_state
       \<Rightarrow> coin_price list \<times> tracker_state" where
  "record_loop get_price [] prices st = (prices, st)"
| "record_loop get_price (t # ts) prices st =
     (case record_price_for_coin get_price st (tc_coin_id t) of
        (Inl exc, st') \<Rightarrow> record_loop get_price ts prices st'
      | (Inr p, st') \<Rightarrow> record_loop get_price ts (prices @ [p]) st')"

definition record_prices_for_all_tracked ::
    "(string \<Rightarrow> error + real) \<Rightarrow> tracker_state \<Rightarrow> coin_price list \<times> tracker_state" where
  "record_prices_for_all_tracked get_price st =
     (let prices = []; tracked_coins = list_tracked_coins st
      in if tracked_coins = [] then (prices, st)
         else record_loop get_price tracked_coins prices st)"

section \<open>Specification-side notions and example data\<close>




text \<open>
  The store's contract of the specification: a history is newest-first when timestamps
  never increase along it. Its chronological reading is the reversed list.
\<close>

definition newest_first :: "coin_price list \<Rightarrow> bool" where
  "newest_first h = sorted_wrt (\<lambda>a b. timestamp b \<le> timestamp a) h"

text \<open>
  A store for the examples. It holds its documents newest-first and answers a query as
  the database does: the documents of the coin, cut to \<open>limit\<close> of them, where a limit of
  zero means no limit and a negative limit counts by its absolute value.
\<close>

definition list_store :: "coin_price list \<Rightarrow> price_store" where
  "list_store docs cid limit =
     (let hits = filter (\<lambda>d. coin_id d = cid) docs
      in if limit = 0 then hits else take (nat \<bar>limit\<bar>) hits)"

text \<open>Snapshots of one coin with the given prices, newest first, one time unit apart.\<close>

definition snapshots :: "string \<Rightarrow> real list \<Rightarrow> coin_price list" where
  "snapshots cid ps =
     map (\<lambda>(i, p). \<lparr>coin_id = cid, price = p, timestamp = int (length ps) - int i\<rparr>)
       (enumerate 0 ps)"

text \<open>
  What the specification calls a low-quality catalog entry, on a symbol and a name: the
  symbol contains a dot or is longer than 10 characters, or the name contains one of the
  blacklisted substrings.
\<close>

definition low_quality :: "string \<Rightarrow> string \<Rightarrow> bool" where
  "low_quality symbol name =
     (CHR ''.'' \<in> set symbol \<or> length symbol > 10 \<or>
      list_ex (\<lambda>kw. sublist kw name) name_blacklist)"

text \<open>
  A catalog for the examples: an entry whose id is \<open>ltc\<close> with a dot in its symbol, a
  wrapped token, a plain coin, and the spam entry of the repository's test.
\<close>

definition example_catalog :: "coin list" where
  "example_catalog =
     [mk_coin ''ltc'' ''ltc.e'' ''Bridged LTC'',
      mk_coin ''wrapped-ltc'' ''LTC'' ''Wrapped LTC'',
      mk_coin ''litecoin'' ''ltc'' ''Litecoin'',
      mk_coin ''spam-coin-peg'' ''spam.x'' ''SpamCoin'']"

text \<open>
  A price client and a state for the examples, after the repository's test of the
  recording loop: the request for \<open>ethereum\<close> fails, the others succeed.
\<close>

definition example_get_price :: "string \<Rightarrow> error + real" where
  "example_get_price cid =
     (if cid = ''ethereum'' then Inl (RuntimeError ''API failed for ethereum'')
      else if cid = ''bitcoin'' then Inr 65000 else Inr 150)"

definition example_state :: tracker_state where
  "example_state =
     \<lparr>tracked =
        [\<lparr>tc_coin_id = ''bitcoin'', tc_symbol = ''btc'', tc_name = ''Bitcoin'', tc_is_active = True\<rparr>,
         \<lparr>tc_coin_id = ''ethereum'', tc_symbol = ''eth'', tc_name = ''Ethereum'', tc_is_active = True\<rparr>,
         \<lparr>tc_coin_id = ''solana'', tc_symbol = ''sol'', tc_name = ''Solana'', tc_is_active = True\<rparr>],
      price_docs = [], clock = 0\<rparr>"

section \<open>Basic facts about the modelled operations\<close>

text \<open>Past their guards the built-ins and the statistics functions return a value.\<close>

lemma py_getitem_last: "xs \<noteq> [] \<Longrightarrow> py_getitem xs (- 1) = Inr (last xs)"
  by (cases xs rule: rev_cases) (simp_all add: py_getitem_def nth_append)

lemma py_getitem_first: "xs \<noteq> [] \<Longrightarrow> py_getitem xs 0 = Inr (hd xs)"
  by (cases xs) (simp_all add: py_getitem_def)

lemma py_max_defined: "xs \<noteq> [] \<Longrightarrow> py_max xs = Inr (fold max (tl xs) (hd xs))"
  by (cases xs) (simp_all add: py_max_def)

lemma py_min_defined: "xs \<noteq> [] \<Longrightarrow> py_min xs = Inr (fold min (tl xs) (hd xs))"
  by (cases xs) (simp_all add: py_min_def)

lemma statistics_mean_defined:
  "xs \<noteq> [] \<Longrightarrow> statistics_mean xs = Inr (sum_list xs / real (length xs))"
  by (simp add: statistics_mean_def)

lemma calculate_volatility_cases:
  assumes "2 \<le> length xs"
  shows "calculate_volatility xs = Inr ''Low'' \<or> calculate_volatility xs = Inr ''Medium''
         \<or> calculate_volatility xs = Inr ''High''"
proof -
  from assms have "xs \<noteq> []" "\<not> length xs < 2" by auto
  then show ?thesis
    unfolding calculate_volatility_def statistics_mean_def statistics_stdev_def bindE_def Let_def
    by simp
qed

lemma calculate_trend_defined:
  "xs \<noteq> [] \<Longrightarrow> \<exists>l s. calculate_trend xs = Inr (l, s)"
  by (simp add: calculate_trend_def statistics_mean_def bindE_def Let_def)

lemma market_analytics_success:
  assumes "2 \<le> length (objects cid limit)"
  shows "get_market_analytics objects cid limit =
     Inr \<lparr>ma_coin_id = cid, ma_record_count = length (objects cid limit),
          open_price = price (last (objects cid limit)),
          close_price = price (hd (objects cid limit)),
          high_price = fold max (tl (map price (objects cid limit))) (price (hd (objects cid limit))),
          low_price = fold min (tl (map price (objects cid limit))) (price (hd (objects cid limit))),
          average_price = sum_list (map price (objects cid limit)) / real (length (objects cid limit)),
          ma_net_change_percent =
            (if price (last (objects cid limit)) \<noteq> 0
             then (price (hd (objects cid limit)) - price (last (objects cid limit)))
                    / price (last (objects cid limit)) * 100
             else 0)\<rparr>"
proof -
  define h where "h = objects cid limit"
  from assms have ne: "h \<noteq> []" "map price h \<noteq> []" and len: "\<not> length h < 2"
    by (auto simp: h_def)
  have "last (map price h) = price (last h)" "hd (map price h) = price (hd h)"
    using ne by (simp_all add: last_map hd_map)
  then show ?thesis
    unfolding get_market_analytics_def get_price_history_def h_def[symmetric] Let_def
    using ne len
    by (simp add: py_getitem_last py_getitem_first py_max_defined py_min_defined
        statistics_mean_defined bindE_def)
qed

lemma market_analytics_failure:
  "length (objects cid limit) < 2 \<Longrightarrow>
   get_market_analytics objects cid limit =
     Inl (NotEnoughData ''market analysis'' 2 (length (objects cid limit)))"
  by (simp add: get_market_analytics_def get_price_history_def Let_def)

lemma trend_analysis_failure:
  "length (objects cid limit) < 4 \<Longrightarrow>
   get_trend_analysis objects cid limit =
     Inl (NotEnoughData ''trend analysis'' 4 (length (objects cid limit)))"
  by (simp add: get_trend_analysis_def get_price_history_def Let_def)

lemma trend_analysis_success:
  assumes "4 \<le> length (objects cid limit)"
  shows "\<exists>vol label norm_slope.
     calculate_volatility (map price (objects cid limit)) = Inr vol \<and>
     vol \<in> {''Low'', ''Medium'', ''High''} \<and>
     calculate_trend (map price (objects cid limit)) = Inr (label, norm_slope) \<and>
     get_trend_analysis objects cid limit =
       Inr \<lparr>ta_coin_id = cid, ta_record_count = length (objects cid limit),
            trend = label, volatility = vol,
            momentum_score =
              calculate_momentum
                (if price (last (objects cid limit)) \<noteq> 0
                 then (price (hd (objects cid limit)) - price (last (objects cid limit)))
                        / price (last (objects cid limit)) * 100
                 else 0) norm_slope,
            ta_net_change_percent =
              (if price (last (objects cid limit)) \<noteq> 0
               then (price (hd (objects cid limit)) - price (last (objects cid limit)))
                      / price (last (objects cid limit)) * 100
               else 0)\<rparr>"
proof -
  define h where "h = objects cid limit"
  from assms have ne: "h \<noteq> []" "map price h \<noteq> []" and len: "\<not> length h < 4"
    and len2: "2 \<le> length (map price h)"
    by (auto simp: h_def)
  have lh: "last (map price h) = price (last h)" "hd (map price h) = price (hd h)"
    using ne by (simp_all add: last_map hd_map)
  from calculate_volatility_cases[OF len2] obtain vol
    where vol: "calculate_volatility (map price h) = Inr vol"
      "vol \<in> {''Low'', ''Medium'', ''High''}"
    by auto
  from calculate_trend_defined[OF ne(2)] obtain label norm_slope
    where tr: "calculate_trend (map price h) = Inr (label, norm_slope)"
    by auto
  have "get_trend_analysis objects cid limit =
       Inr \<lparr>ta_coin_id = cid, ta_record_count = length h,
            trend = label, volatility = vol,
            momentum_score =
              calculate_momentum
                (if price (last h) \<noteq> 0
                 then (price (hd h) - price (last h)) / price (last h) * 100
                 else 0) norm_slope,
            ta_net_change_percent =
              (if price (last h) \<noteq> 0
               then (price (hd h) - price (last h)) / price (last h) * 100
               else 0)\<rparr>"
    unfolding get_trend_analysis_def get_price_history_def h_def[symmetric] Let_def
    using ne len
    by (simp add: vol tr lh py_getitem_last py_getitem_first bindE_def)
  with vol tr show ?thesis
    unfolding h_def by blast
qed

section \<open>Claims about the analytics operations\<close>

text \<open>
  C1. The specification has \<^verbatim>\<open>get_trend_analysis\<close> compute the trend of the chronological
  price sequence, the reversed history. The code passes the history as fetched, newest
  first, to the trend calculator. On the newest-first history with prices 15, 12, 11, 7, 5
  (chronologically 5, 7, 11, 12, 15: rising, normalized slope 25) the operation reports a
  strong downtrend, together with a net change of plus 200 percent; the calculator run on
  the chronological sequence gives a strong uptrend.
\<close>

theorem trend_analysis_feeds_newest_first:
  "newest_first (snapshots ''bitcoin'' [15, 12, 11, 7, 5]) \<and>
   get_trend_analysis (list_store (snapshots ''bitcoin'' [15, 12, 11, 7, 5])) ''bitcoin'' 5
     = Inr \<lparr>ta_coin_id = ''bitcoin'', ta_record_count = 5, trend = ''Strong Downtrend'',
            volatility = ''High'', momentum_score = 10, ta_net_change_percent = 200\<rparr> \<and>
   calculate_trend (rev [15, 12, 11, 7, 5]) = Inr (''Strong Uptrend'', 25) \<and>
   calculate_trend [15, 12, 11, 7, 5] = Inr (''Strong Downtrend'', - 25)"
  by (simp add: get_trend_analysis_def get_price_history_def list_store_def snapshots_def
      newest_first_def calculate_volatility_def calculate_trend_def calculate_momentum_def
      statistics_mean_def statistics_stdev_def py_getitem_def bindE_def Let_def upt_rec
      enumerate_eq_zip)

text \<open>
  C2. \<^verbatim>\<open>get_market_analytics\<close> fails with the not-enough-data error exactly when the store
  returns fewer than 2 records and otherwise succeeds, with the number of records
  returned as its record count (so 2 for exactly 2 records); \<^verbatim>\<open>get_trend_analysis\<close>
  fails with its not-enough-data error exactly when fewer than 4 records are returned and
  otherwise succeeds.
\<close>

theorem insufficient_data_guards:
  "(get_market_analytics objects cid limit =
      Inl (NotEnoughData ''market analysis'' 2 (length (get_price_history objects cid limit))))
     = (length (get_price_history objects cid limit) < 2) \<and>
   (\<exists>r. get_market_analytics objects cid limit = Inr r \<and>
        ma_record_count r = length (get_price_history objects cid limit))
     = (2 \<le> length (get_price_history objects cid limit)) \<and>
   (get_trend_analysis objects cid limit =
      Inl (NotEnoughData ''trend analysis'' 4 (length (get_price_history objects cid limit))))
     = (length (get_price_history objects cid limit) < 4) \<and>
   (\<exists>r. get_trend_analysis objects cid limit = Inr r \<and>
        ta_record_count r = length (get_price_history objects cid limit))
     = (4 \<le> length (get_price_history objects cid limit))"
proof -
  let ?n = "length (objects cid limit)"
  have m: "(get_market_analytics objects cid limit =
      Inl (NotEnoughData ''market analysis'' 2 ?n)) = (?n < 2)"
    and m': "(\<exists>r. get_market_analytics objects cid limit = Inr r \<and> ma_record_count r = ?n)
      = (2 \<le> ?n)"
  proof -
    show "(get_market_analytics objects cid limit =
      Inl (NotEnoughData ''market analysis'' 2 ?n)) = (?n < 2)"
    proof (cases "?n < 2")
      case True
      then show ?thesis by (simp add: market_analytics_failure)
    next
      case False
      then have "2 \<le> ?n" by simp
      with market_analytics_success[of objects cid limit] False show ?thesis by simp
    qed
    show "(\<exists>r. get_market_analytics objects cid limit = Inr r \<and> ma_record_count r = ?n)
      = (2 \<le> ?n)"
    proof (cases "?n < 2")
      case True
      then show ?thesis by (simp add: market_analytics_failure)
    next
      case False
      then have "2 \<le> ?n" by simp
      with market_analytics_success[of objects cid limit] False show ?thesis by simp
    qed
  qed
  have t: "(get_trend_analysis objects cid limit =
      Inl (NotEnoughData ''trend analysis'' 4 ?n)) = (?n < 4)"
    and t': "(\<exists>r. get_trend_analysis objects cid limit = Inr r \<and> ta_record_count r = ?n)
      = (4 \<le> ?n)"
  proof -
    show "(get_trend_analysis objects cid limit =
      Inl (NotEnoughData ''trend analysis'' 4 ?n)) = (?n < 4)"
    proof (cases "?n < 4")
      case True
      then show ?thesis by (simp add: trend_analysis_failure)
    next
      case False
      then have "4 \<le> ?n" by simp
      with trend_analysis_success[of objects cid limit] False show ?thesis by auto
    qed
    show "(\<exists>r. get_trend_analysis objects cid limit = Inr r \<and> ta_record_count r = ?n)
      = (4 \<le> ?n)"
    proof (cases "?n < 4")
      case True
      then show ?thesis by (simp add: trend_analysis_failure)
    next
      case False
      then have "4 \<le> ?n" by simp
      with trend_analysis_success[of objects cid limit] False show ?thesis by auto
    qed
  qed
  from m m' t t' show ?thesis
    unfolding get_price_history_def by blast
qed

lemma example_histories:
  "get_price_history (list_store (snapshots ''bitcoin'' [110, 100])) ''bitcoin'' 2 =
     [\<lparr>coin_id = ''bitcoin'', price = 110, timestamp = 2\<rparr>,
      \<lparr>coin_id = ''bitcoin'', price = 100, timestamp = 1\<rparr>]"
  "get_price_history (list_store (snapshots ''bitcoin'' [110])) ''bitcoin'' 2 =
     [\<lparr>coin_id = ''bitcoin'', price = 110, timestamp = 1\<rparr>]"
  "get_price_history (list_store (snapshots ''bitcoin'' [103, 99, 99, 99])) ''bitcoin'' 4 =
     [\<lparr>coin_id = ''bitcoin'', price = 103, timestamp = 4\<rparr>,
      \<lparr>coin_id = ''bitcoin'', price = 99, timestamp = 3\<rparr>,
      \<lparr>coin_id = ''bitcoin'', price = 99, timestamp = 2\<rparr>,
      \<lparr>coin_id = ''bitcoin'', price = 99, timestamp = 1\<rparr>]"
  "get_price_history (list_store (snapshots ''bitcoin'' [103, 99, 99])) ''bitcoin'' 4 =
     [\<lparr>coin_id = ''bitcoin'', price = 103, timestamp = 3\<rparr>,
      \<lparr>coin_id = ''bitcoin'', price = 99, timestamp = 2\<rparr>,
      \<lparr>coin_id = ''bitcoin'', price = 99, timestamp = 1\<rparr>]"
  by (simp_all add: get_price_history_def list_store_def snapshots_def enumerate_eq_zip upt_rec)

theorem insufficient_data_guards_witness:
  "(\<exists>r. get_market_analytics (list_store (snapshots ''bitcoin'' [110, 100])) ''bitcoin'' 2 = Inr r
        \<and> ma_record_count r = 2) \<and>
   get_market_analytics (list_store (snapshots ''bitcoin'' [110])) ''bitcoin'' 2
     = Inl (NotEnoughData ''market analysis'' 2 1) \<and>
   (\<exists>r. get_trend_analysis (list_store (snapshots ''bitcoin'' [103, 99, 99, 99])) ''bitcoin'' 4
           = Inr r \<and> ta_record_count r = 4) \<and>
   get_trend_analysis (list_store (snapshots ''bitcoin'' [103, 99, 99])) ''bitcoin'' 4
     = Inl (NotEnoughData ''trend analysis'' 4 3)"
proof -
  note g1 = insufficient_data_guards
    [of "list_store (snapshots ''bitcoin'' [110, 100])" "''bitcoin''" 2, unfolded example_histories]
  note g2 = insufficient_data_guards
    [of "list_store (snapshots ''bitcoin'' [110])" "''bitcoin''" 2, unfolded example_histories]
  note g3 = insufficient_data_guards
    [of "list_store (snapshots ''bitcoin'' [103, 99, 99, 99])" "''bitcoin''" 4,
      unfolded example_histories]
  note g4 = insufficient_data_guards
    [of "list_store (snapshots ''bitcoin'' [103, 99, 99])" "''bitcoin''" 4,
      unfolded example_histories]
  have "\<exists>r. get_market_analytics (list_store (snapshots ''bitcoin'' [110, 100])) ''bitcoin'' 2
          = Inr r \<and> ma_record_count r = 2"
    using g1 by (simp add: eval_nat_numeral)
  moreover have "get_market_analytics (list_store (snapshots ''bitcoin'' [110])) ''bitcoin'' 2
     = Inl (NotEnoughData ''market analysis'' 2 1)"
    using g2 by (simp add: eval_nat_numeral)
  moreover have "\<exists>r. get_trend_analysis (list_store (snapshots ''bitcoin'' [103, 99, 99, 99]))
          ''bitcoin'' 4 = Inr r \<and> ta_record_count r = 4"
    using g3 by (simp add: eval_nat_numeral)
  moreover have "get_trend_analysis (list_store (snapshots ''bitcoin'' [103, 99, 99])) ''bitcoin'' 4
     = Inl (NotEnoughData ''trend analysis'' 4 3)"
    using g4 by (simp add: eval_nat_numeral)
  ultimately show ?thesis by blast
qed

text \<open>Evaluations of the operations on example stores, used by the examples below.\<close>

lemma zero_limit_histories:
  "get_price_history (list_store (snapshots ''bitcoin'' [110, 100, 90, 80])) ''bitcoin'' 0 =
     [\<lparr>coin_id = ''bitcoin'', price = 110, timestamp = 4\<rparr>,
      \<lparr>coin_id = ''bitcoin'', price = 100, timestamp = 3\<rparr>,
      \<lparr>coin_id = ''bitcoin'', price = 90, timestamp = 2\<rparr>,
      \<lparr>coin_id = ''bitcoin'', price = 80, timestamp = 1\<rparr>]"
  "get_price_history (list_store (snapshots ''bitcoin'' [110, 100, 90, 80])) ''bitcoin'' (- 1) =
     [\<lparr>coin_id = ''bitcoin'', price = 110, timestamp = 4\<rparr>]"
  "get_price_history (list_store (snapshots ''bitcoin'' [110, 100, 90, 80])) ''bitcoin'' 4 =
     [\<lparr>coin_id = ''bitcoin'', price = 110, timestamp = 4\<rparr>,
      \<lparr>coin_id = ''bitcoin'', price = 100, timestamp = 3\<rparr>,
      \<lparr>coin_id = ''bitcoin'', price = 90, timestamp = 2\<rparr>,
      \<lparr>coin_id = ''bitcoin'', price = 80, timestamp = 1\<rparr>]"
  by (simp_all add: get_price_history_def list_store_def snapshots_def enumerate_eq_zip upt_rec)

lemma analytics_depend_on_history:
  assumes "get_price_history objects' cid limit' = get_price_history objects cid limit"
  shows "get_market_analytics objects' cid limit' = get_market_analytics objects cid limit"
    and "get_trend_analysis objects' cid limit' = get_trend_analysis objects cid limit"
  unfolding get_market_analytics_def get_trend_analysis_def assms by (rule refl)+





lemma trend_analysis_example:
  "get_trend_analysis (list_store (snapshots ''bitcoin'' [103, 99, 99, 99])) ''bitcoin'' 4
     = Inr \<lparr>ta_coin_id = ''bitcoin'', ta_record_count = 4, trend = ''Strong Downtrend'',
            volatility = ''Medium'', momentum_score = 10,
            ta_net_change_percent = 400 / 99\<rparr>"
  by (simp add: get_trend_analysis_def get_price_history_def
      list_store_def snapshots_def
      calculate_volatility_def calculate_trend_def calculate_momentum_def
      statistics_mean_def statistics_stdev_def py_getitem_def bindE_def Let_def upt_rec
      enumerate_eq_zip)

lemma chronological_examples:
  "get_price_history (list_store (snapshots ''bitcoin'' (rev [100, 110]))) ''bitcoin'' 10 =
     [\<lparr>coin_id = ''bitcoin'', price = 110, timestamp = 2\<rparr>,
      \<lparr>coin_id = ''bitcoin'', price = 100, timestamp = 1\<rparr>]"
  "get_price_history (list_store (snapshots ''bitcoin'' (rev [100, 0]))) ''bitcoin'' 10 =
     [\<lparr>coin_id = ''bitcoin'', price = 0, timestamp = 2\<rparr>,
      \<lparr>coin_id = ''bitcoin'', price = 100, timestamp = 1\<rparr>]"
  "get_price_history (list_store (snapshots ''bitcoin'' (rev [0, 7, 5]))) ''bitcoin'' 10 =
     [\<lparr>coin_id = ''bitcoin'', price = 5, timestamp = 3\<rparr>,
      \<lparr>coin_id = ''bitcoin'', price = 7, timestamp = 2\<rparr>,
      \<lparr>coin_id = ''bitcoin'', price = 0, timestamp = 1\<rparr>]"
  by (simp_all add: get_price_history_def list_store_def snapshots_def enumerate_eq_zip upt_rec)

lemma newest_first_bounds:
  assumes "newest_first h" "x \<in> set h"
  shows "timestamp (last h) \<le> timestamp x \<and> timestamp x \<le> timestamp (hd h)"
proof -
  from assms(2) have ne: "h \<noteq> []" by auto
  then obtain a t where h1: "h = a # t" by (cases h) auto
  from ne obtain t' z where h2: "h = t' @ [z]" by (cases h rule: rev_cases) auto
  from assms(1) h1 have "\<forall>y\<in>set t. timestamp y \<le> timestamp a"
    by (simp add: newest_first_def)
  with assms(2) h1 have up: "timestamp x \<le> timestamp (hd h)" by auto
  from assms(1) h2 have "\<forall>y\<in>set t'. timestamp z \<le> timestamp y"
    by (simp add: newest_first_def sorted_wrt_append)
  with assms(2) h2 have "timestamp (last h) \<le> timestamp x" by auto
  with up show ?thesis by simp
qed

text \<open>
  C3 as the specification states it: for a zero or negative limit both operations fail
  at once with an invalid-input error, before any fetch. The code has no check on the
  limit. With limit 0 and a store holding two records \<^verbatim>\<open>get_market_analytics\<close> returns a
  report, and with limit \<open>-4\<close> and four records \<^verbatim>\<open>get_trend_analysis\<close> returns a report.
\<close>

theorem limit_precondition_counterexample:
  "get_market_analytics (list_store (snapshots ''bitcoin'' [110, 100])) ''bitcoin'' 0
     = Inr \<lparr>ma_coin_id = ''bitcoin'', ma_record_count = 2, open_price = 100,
            close_price = 110, high_price = 110, low_price = 100, average_price = 105,
            ma_net_change_percent = 10\<rparr> \<and>
   get_trend_analysis (list_store (snapshots ''bitcoin'' [103, 99, 99, 99])) ''bitcoin'' (- 4)
     = Inr \<lparr>ta_coin_id = ''bitcoin'', ta_record_count = 4, trend = ''Strong Downtrend'',
            volatility = ''Medium'', momentum_score = 10,
            ta_net_change_percent = 400 / 99\<rparr>"
  by (simp add: get_market_analytics_def get_trend_analysis_def get_price_history_def
      list_store_def snapshots_def py_max_def py_min_def
      calculate_volatility_def calculate_trend_def calculate_momentum_def
      statistics_mean_def statistics_stdev_def py_getitem_def bindE_def Let_def upt_rec
      enumerate_eq_zip)

text \<open>
  C3, amended. For a zero or negative limit \<^verbatim>\<open>get_market_analytics\<close> and
  \<^verbatim>\<open>get_trend_analysis\<close> make no check on the limit and raise no invalid-input error:
  they fetch with the limit given, and on the records the store returns they fail with
  the not-enough-data error exactly when there are fewer than 2 (respectively 4) of them
  and otherwise return a report counting them. Their outcome is that of any call, with
  whatever limit, that fetches the same records. A failure of the store itself is
  outside the model.
\<close>

theorem limit_not_validated:
  assumes "limit \<le> 0"
  shows "(get_market_analytics objects cid limit =
            Inl (NotEnoughData ''market analysis'' 2 (length (get_price_history objects cid limit))))
           = (length (get_price_history objects cid limit) < 2) \<and>
         (\<exists>r. get_market_analytics objects cid limit = Inr r \<and>
              ma_record_count r = length (get_price_history objects cid limit))
           = (2 \<le> length (get_price_history objects cid limit)) \<and>
         (get_trend_analysis objects cid limit =
            Inl (NotEnoughData ''trend analysis'' 4 (length (get_price_history objects cid limit))))
           = (length (get_price_history objects cid limit) < 4) \<and>
         (\<exists>r. get_trend_analysis objects cid limit = Inr r \<and>
              ta_record_count r = length (get_price_history objects cid limit))
           = (4 \<le> length (get_price_history objects cid limit)) \<and>
         (get_price_history objects' cid limit' = get_price_history objects cid limit \<longrightarrow>
            get_market_analytics objects' cid limit' = get_market_analytics objects cid limit \<and>
            get_trend_analysis objects' cid limit' = get_trend_analysis objects cid limit)"
proof -
  let ?n = "length (objects cid limit)"
  have m: "(get_market_analytics objects cid limit =
      Inl (NotEnoughData ''market analysis'' 2 ?n)) = (?n < 2)"
  proof (cases "?n < 2")
    case True
    then show ?thesis by (simp add: market_analytics_failure)
  next
    case False
    with market_analytics_success[of objects cid limit] show ?thesis by simp
  qed
  have m': "(\<exists>r. get_market_analytics objects cid limit = Inr r \<and> ma_record_count r = ?n)
      = (2 \<le> ?n)"
  proof (cases "?n < 2")
    case True
    then show ?thesis by (simp add: market_analytics_failure)
  next
    case False
    with market_analytics_success[of objects cid limit] show ?thesis by simp
  qed
  have t: "(get_trend_analysis objects cid limit =
      Inl (NotEnoughData ''trend analysis'' 4 ?n)) = (?n < 4)"
  proof (cases "?n < 4")
    case True
    then show ?thesis by (simp add: trend_analysis_failure)
  next
    case False
    with trend_analysis_success[of objects cid limit] show ?thesis by auto
  qed
  have t': "(\<exists>r. get_trend_analysis objects cid limit = Inr r \<and> ta_record_count r = ?n)
      = (4 \<le> ?n)"
  proof (cases "?n < 4")
    case True
    then show ?thesis by (simp add: trend_analysis_failure)
  next
    case False
    with trend_analysis_success[of objects cid limit] show ?thesis by auto
  qed
  have d: "get_price_history objects' cid limit' = get_price_history objects cid limit \<longrightarrow>
            get_market_analytics objects' cid limit' = get_market_analytics objects cid limit \<and>
            get_trend_analysis objects' cid limit' = get_trend_analysis objects cid limit"
    using analytics_depend_on_history[of objects' cid limit' objects limit] by blast
  from m m' t t' have "(get_market_analytics objects cid limit =
            Inl (NotEnoughData ''market analysis'' 2 (length (get_price_history objects cid limit))))
           = (length (get_price_history objects cid limit) < 2) \<and>
         (\<exists>r. get_market_analytics objects cid limit = Inr r \<and>
              ma_record_count r = length (get_price_history objects cid limit))
           = (2 \<le> length (get_price_history objects cid limit)) \<and>
         (get_trend_analysis objects cid limit =
            Inl (NotEnoughData ''trend analysis'' 4 (length (get_price_history objects cid limit))))
           = (length (get_price_history objects cid limit) < 4) \<and>
         (\<exists>r. get_trend_analysis objects cid limit = Inr r \<and>
              ta_record_count r = length (get_price_history objects cid limit))
           = (4 \<le> length (get_price_history objects cid limit))"
    unfolding get_price_history_def by blast
  with d show ?thesis by blast
qed

theorem limit_not_validated_witness:
  "(0::int) \<le> 0 \<and> (- 1 :: int) \<le> 0 \<and>
   (\<exists>r. get_market_analytics (list_store (snapshots ''bitcoin'' [110, 100, 90, 80])) ''bitcoin'' 0
           = Inr r \<and> ma_record_count r = 4) \<and>
   (\<exists>r. get_trend_analysis (list_store (snapshots ''bitcoin'' [110, 100, 90, 80])) ''bitcoin'' 0
           = Inr r \<and> ta_record_count r = 4) \<and>
   get_market_analytics (list_store (snapshots ''bitcoin'' [110, 100, 90, 80])) ''bitcoin'' 4
     = get_market_analytics (list_store (snapshots ''bitcoin'' [110, 100, 90, 80])) ''bitcoin'' 0 \<and>
   get_trend_analysis (list_store (snapshots ''bitcoin'' [110, 100, 90, 80])) ''bitcoin'' 4
     = get_trend_analysis (list_store (snapshots ''bitcoin'' [110, 100, 90, 80])) ''bitcoin'' 0 \<and>
   get_market_analytics (list_store (snapshots ''bitcoin'' [110, 100, 90, 80])) ''bitcoin'' (- 1)
     = Inl (NotEnoughData ''market analysis'' 2 1) \<and>
   get_trend_analysis (list_store (snapshots ''bitcoin'' [110, 100, 90, 80])) ''bitcoin'' (- 1)
     = Inl (NotEnoughData ''trend analysis'' 4 1)"
proof -
  have z: "(0::int) \<le> 0" and n: "(- 1 :: int) \<le> 0" by simp_all
  note g0 = limit_not_validated
    [OF z, of "list_store (snapshots ''bitcoin'' [110, 100, 90, 80])" "''bitcoin''"
      "list_store (snapshots ''bitcoin'' [110, 100, 90, 80])" 4,
      unfolded zero_limit_histories]
  note g1 = limit_not_validated
    [OF n, of "list_store (snapshots ''bitcoin'' [110, 100, 90, 80])" "''bitcoin''"
      "list_store (snapshots ''bitcoin'' [110, 100, 90, 80])" 4,
      unfolded zero_limit_histories]
  from g0 have "\<exists>r. get_market_analytics (list_store (snapshots ''bitcoin'' [110, 100, 90, 80]))
      ''bitcoin'' 0 = Inr r \<and> ma_record_count r = 4"
    by (simp add: eval_nat_numeral)
  moreover from g0 have "\<exists>r. get_trend_analysis
      (list_store (snapshots ''bitcoin'' [110, 100, 90, 80])) ''bitcoin'' 0 = Inr r
        \<and> ta_record_count r = 4"
    by (simp add: eval_nat_numeral)
  moreover from g0 have
    "get_market_analytics (list_store (snapshots ''bitcoin'' [110, 100, 90, 80])) ''bitcoin'' 4
     = get_market_analytics (list_store (snapshots ''bitcoin'' [110, 100, 90, 80])) ''bitcoin'' 0"
    "get_trend_analysis (list_store (snapshots ''bitcoin'' [110, 100, 90, 80])) ''bitcoin'' 4
     = get_trend_analysis (list_store (snapshots ''bitcoin'' [110, 100, 90, 80])) ''bitcoin'' 0"
    by simp_all
  moreover from g1 have
    "get_market_analytics (list_store (snapshots ''bitcoin'' [110, 100, 90, 80])) ''bitcoin'' (- 1)
     = Inl (NotEnoughData ''market analysis'' 2 1)"
    "get_trend_analysis (list_store (snapshots ''bitcoin'' [110, 100, 90, 80])) ''bitcoin'' (- 1)
     = Inl (NotEnoughData ''trend analysis'' 4 1)"
    by (simp_all add: eval_nat_numeral)
  ultimately show ?thesis by simp
qed

text \<open>
  C4. For a history of at least 2 records returned newest-first,
  \<^verbatim>\<open>get_market_analytics\<close> succeeds; the open price is the price of the first record of
  the chronological (reversed) history, whose timestamp no record of the window
  precedes, the close price is the price of its last record, which no record follows;
  the net change is \<open>(close - open) / open * 100\<close>, and 0 when the open price is 0.
  The examples: chronological prices 100, 110 give 10; 100, 0 give \<open>-100\<close>; an open
  price of 0 gives 0.
\<close>

theorem market_analytics_open_close:
  assumes "newest_first (get_price_history objects cid limit)"
    and "2 \<le> length (get_price_history objects cid limit)"
  shows "\<exists>r. get_market_analytics objects cid limit = Inr r \<and>
     open_price r = price (hd (rev (get_price_history objects cid limit))) \<and>
     close_price r = price (last (rev (get_price_history objects cid limit))) \<and>
     (\<forall>x \<in> set (get_price_history objects cid limit).
        timestamp (hd (rev (get_price_history objects cid limit))) \<le> timestamp x \<and>
        timestamp x \<le> timestamp (last (rev (get_price_history objects cid limit)))) \<and>
     ma_net_change_percent r =
       (if open_price r = 0 then 0
        else (close_price r - open_price r) / open_price r * 100)"
proof -
  define h where "h = objects cid limit"
  from assms have nf: "newest_first h" and len: "2 \<le> length h"
    by (simp_all add: get_price_history_def h_def)
  then have ne: "h \<noteq> []" by auto
  then have rv: "hd (rev h) = last h" "last (rev h) = hd h"
    by (simp_all add: hd_rev last_rev)
  from newest_first_bounds[OF nf]
  have ts: "\<forall>x\<in>set h. timestamp (last h) \<le> timestamp x \<and> timestamp x \<le> timestamp (hd h)"
    by blast
  from market_analytics_success[of objects cid limit] len ts
  show ?thesis
    unfolding get_price_history_def h_def[symmetric] rv by auto
qed

theorem market_analytics_open_close_witness:
  "(\<exists>r. get_market_analytics (list_store (snapshots ''bitcoin'' (rev [100, 110]))) ''bitcoin'' 10
          = Inr r \<and> open_price r = 100 \<and> close_price r = 110 \<and> ma_net_change_percent r = 10) \<and>
   (\<exists>r. get_market_analytics (list_store (snapshots ''bitcoin'' (rev [100, 0]))) ''bitcoin'' 10
          = Inr r \<and> open_price r = 100 \<and> close_price r = 0 \<and> ma_net_change_percent r = - 100) \<and>
   (\<exists>r. get_market_analytics (list_store (snapshots ''bitcoin'' (rev [0, 7, 5]))) ''bitcoin'' 10
          = Inr r \<and> open_price r = 0 \<and> close_price r = 5 \<and> ma_net_change_percent r = 0)"
proof -
  note g1 = market_analytics_open_close
    [of "list_store (snapshots ''bitcoin'' (rev [100, 110]))" "''bitcoin''" 10,
      unfolded chronological_examples]
  note g2 = market_analytics_open_close
    [of "list_store (snapshots ''bitcoin'' (rev [100, 0]))" "''bitcoin''" 10,
      unfolded chronological_examples]
  note g3 = market_analytics_open_close
    [of "list_store (snapshots ''bitcoin'' (rev [0, 7, 5]))" "''bitcoin''" 10,
      unfolded chronological_examples]
  have "\<exists>r. get_market_analytics (list_store (snapshots ''bitcoin'' (rev [100, 110]))) ''bitcoin'' 10
          = Inr r \<and> open_price r = 100 \<and> close_price r = 110 \<and> ma_net_change_percent r = 10"
    using g1 by (auto simp: newest_first_def)
  moreover
  have "\<exists>r. get_market_analytics (list_store (snapshots ''bitcoin'' (rev [100, 0]))) ''bitcoin'' 10
          = Inr r \<and> open_price r = 100 \<and> close_price r = 0 \<and> ma_net_change_percent r = - 100"
    using g2 by (auto simp: newest_first_def)
  moreover
  have "\<exists>r. get_market_analytics (list_store (snapshots ''bitcoin'' (rev [0, 7, 5]))) ''bitcoin'' 10
          = Inr r \<and> open_price r = 0 \<and> close_price r = 5 \<and> ma_net_change_percent r = 0"
    using g3 by (auto simp: newest_first_def)
  ultimately show ?thesis by blast
qed



text \<open>
  C7. The momentum score is \<open>|net_change_percent| * 0.5 + |norm_slope| * 20\<close> clamped to
  the interval from 0 to 10: a raw value above 10 gives exactly 10, any other raw value
  is returned as it is, the score lies between 0 and 10, and the lower clamp never
  changes the raw value, which is never negative.
\<close>

theorem momentum_clamped:
  "calculate_momentum n s =
       (if \<bar>n\<bar> * 0.5 + \<bar>s\<bar> * 20 > 10 then 10 else \<bar>n\<bar> * 0.5 + \<bar>s\<bar> * 20)
     \<and> 0 \<le> calculate_momentum n s \<and> calculate_momentum n s \<le> 10
     \<and> max (\<bar>n\<bar> * 0.5 + \<bar>s\<bar> * 20) 0 = \<bar>n\<bar> * 0.5 + \<bar>s\<bar> * 20"
  by (auto simp: calculate_momentum_def Let_def)

theorem momentum_clamped_witness:
  "calculate_momentum 30 0 = 10 \<and> calculate_momentum (- 4) (1 / 10) = 4 \<and>
   calculate_momentum 0 0 = 0"
  using momentum_clamped[of 30 0] momentum_clamped[of "- 4" "1 / 10"] momentum_clamped[of 0 0]
  by simp

text \<open>
  C10. A report of \<^verbatim>\<open>get_trend_analysis\<close> never carries the volatility \<open>Unknown\<close>: its
  volatility is one of \<open>Low\<close>, \<open>Medium\<close>, \<open>High\<close>.
\<close>

theorem trend_analysis_volatility_known:
  assumes "get_trend_analysis objects cid limit = Inr r"
  shows "volatility r \<in> {''Low'', ''Medium'', ''High''} \<and> volatility r \<noteq> ''Unknown''"
proof -
  have len: "4 \<le> length (objects cid limit)"
  proof (rule ccontr)
    assume "\<not> 4 \<le> length (objects cid limit)"
    then have "length (objects cid limit) < 4" by simp
    with trend_analysis_failure[of objects cid limit] assms show False by simp
  qed
  with trend_analysis_success[of objects cid limit] assms
  have "volatility r \<in> {''Low'', ''Medium'', ''High''}" by auto
  then show ?thesis by auto
qed

theorem trend_analysis_volatility_known_witness:
  "get_trend_analysis (list_store (snapshots ''bitcoin'' [103, 99, 99, 99])) ''bitcoin'' 4
     = Inr \<lparr>ta_coin_id = ''bitcoin'', ta_record_count = 4, trend = ''Strong Downtrend'',
            volatility = ''Medium'', momentum_score = 10,
            ta_net_change_percent = 400 / 99\<rparr> \<and>
   ''Medium'' \<in> {''Low'', ''Medium'', ''High''} \<and> ''Medium'' \<noteq> ''Unknown''"
  using trend_analysis_volatility_known[OF trend_analysis_example] trend_analysis_example
  by simp

section \<open>Claims about the calculators\<close>






section \<open>Claims about the coin search\<close>

text \<open>
  Lower-casing keeps dots, lengths and the blacklisted substrings, so that an entry that
  is low-quality as it stands is low-quality after lower-casing; the scan only ever
  appends entries that pass the filters.
\<close>

lemma lower_char_dot: "lower_char c = CHR ''.'' \<longleftrightarrow> c = CHR ''.''"
proof
  assume "lower_char c = CHR ''.''"
  show "c = CHR ''.''"
  proof (cases "65 \<le> (of_char c :: nat) \<and> (of_char c :: nat) \<le> 90")
    case True
    then have "lower_char c = char_of ((of_char c :: nat) + 32)"
      by (simp add: lower_char_def Let_def)
    with \<open>lower_char c = CHR ''.''\<close> have "(of_char (char_of ((of_char c :: nat) + 32)) :: nat) = of_char CHR ''.''"
      by simp
    with True show ?thesis by simp
  next
    case False
    with \<open>lower_char c = CHR ''.''\<close> show ?thesis by (auto simp: lower_char_def Let_def)
  qed
next
  assume "c = CHR ''.''"
  then show "lower_char c = CHR ''.''" by (simp add: lower_char_def)
qed

lemma dot_str_lower: "CHR ''.'' \<in> set (str_lower s) \<longleftrightarrow> CHR ''.'' \<in> set s"
proof -
  have "CHR ''.'' \<in> lower_char ` set s \<longleftrightarrow> CHR ''.'' \<in> set s"
    using lower_char_dot by (metis image_iff)
  then show ?thesis by (simp add: str_lower_def)
qed

lemma length_str_lower: "length (str_lower s) = length s"
  by (simp add: str_lower_def)

lemma str_lower_blacklist: "kw \<in> set name_blacklist \<Longrightarrow> str_lower kw = kw"
  by (auto simp: name_blacklist_def str_lower_def lower_char_def)

lemma blacklist_str_lower:
  assumes "list_ex (\<lambda>kw. sublist kw name) name_blacklist"
  shows "list_ex (\<lambda>kw. sublist kw (str_lower name)) name_blacklist"
proof -
  from assms obtain kw where kw: "kw \<in> set name_blacklist" "sublist kw name"
    by (auto simp: list_ex_iff)
  from map_mono_sublist[OF kw(2), of lower_char] str_lower_blacklist[OF kw(1)]
  have "sublist kw (str_lower name)" by (simp add: str_lower_def)
  with kw(1) show ?thesis by (auto simp: list_ex_iff)
qed

lemma low_quality_str_lower:
  "low_quality symbol name \<Longrightarrow> low_quality (str_lower symbol) (str_lower name)"
  unfolding low_quality_def
  using blacklist_str_lower[of name] by (auto simp: dot_str_lower length_str_lower)

lemma search_loop_quality:
  assumes "\<forall>c \<in> set results.
     \<not> low_quality (str_lower (dict_get c ''symbol'' [])) (str_lower (dict_get c ''name'' []))"
  shows "\<forall>c \<in> set (search_loop query limit catalog results).
     \<not> low_quality (str_lower (dict_get c ''symbol'' [])) (str_lower (dict_get c ''name'' []))"
  using assms
proof (induction catalog arbitrary: results)
  case Nil
  then show ?case by simp
next
  case (Cons coin rest)
  let ?ok = "\<lambda>c. \<not> low_quality (str_lower (dict_get c ''symbol'' []))
                      (str_lower (dict_get c ''name'' []))"
  show ?case
  proof (cases "?ok coin")
    case False
    then have "search_loop query limit (coin # rest) results = search_loop query limit rest results"
      by (auto simp: low_quality_def Let_def)
    with Cons show ?thesis by simp
  next
    case True
    with Cons.prems have ext: "\<forall>c \<in> set (results @ [coin]). ?ok c" by auto
    have "search_loop query limit (coin # rest) results = search_loop query limit rest results
        \<or> search_loop query limit (coin # rest) results = results @ [coin]
        \<or> search_loop query limit (coin # rest) results
             = search_loop query limit rest (results @ [coin])"
      by (simp add: Let_def)
    with Cons.IH[OF Cons.prems] Cons.IH[OF ext] ext show ?thesis by metis
  qed
qed

lemma str_lower_examples:
  "str_lower ''LTC'' = ''ltc''" "str_lower ''ltc'' = ''ltc''" "str_lower ''ltc.e'' = ''ltc.e''"
  "str_lower ''Bridged LTC'' = ''bridged ltc''" "str_lower ''Wrapped LTC'' = ''wrapped ltc''"
  "str_lower ''Litecoin'' = ''litecoin''" "str_lower ''wrapped-ltc'' = ''wrapped-ltc''"
  "str_lower ''litecoin'' = ''litecoin''" "str_lower ''spam-coin-peg'' = ''spam-coin-peg''"
  "str_lower ''spam.x'' = ''spam.x''" "str_lower ''SpamCoin'' = ''spamcoin''"
  by code_simp+

lemma search_examples:
  "map_of MAJOR_COINS (str_lower ''LTC'') = None"
  "search_coins (Inr example_catalog) ''LTC'' 10 = Inr [mk_coin ''litecoin'' ''ltc'' ''Litecoin'']"
  "search_coins (Inr example_catalog) ''spam-coin-peg'' 10 = Inr []"
  "search_coins (Inr example_catalog) ''wrapped-ltc'' 10 = Inr []"
  by (simp_all add: search_coins_def MAJOR_COINS_def example_catalog_def mk_coin_def
      dict_get_def name_blacklist_def bindE_def Let_def str_lower_examples
      sublist_Cons_right)

text \<open>
  C8. When the query misses the priority table, no entry returned by \<^verbatim>\<open>search_coins\<close>
  has a symbol containing a dot or longer than 10 characters, or a name containing one
  of \<open>-peg\<close>, \<open>wrapped\<close>, \<open>token\<close>, \<open>staked\<close>, whatever the query and the catalog are,
  hence also when the query equals the entry's id. This holds for the fields as stored
  and for their lower-cased forms, which are what the code tests.
\<close>

theorem search_excludes_low_quality:
  assumes "map_of MAJOR_COINS (str_lower query) = None"
    and "search_coins catalog query limit = Inr results"
    and "c \<in> set results"
  shows "\<not> low_quality (dict_get c ''symbol'' []) (dict_get c ''name'' []) \<and>
         \<not> low_quality (str_lower (dict_get c ''symbol'' [])) (str_lower (dict_get c ''name'' []))"
proof -
  from assms(1,2) obtain all_coins where
    "results = search_loop (str_lower query) limit all_coins []"
    by (cases catalog) (auto simp: search_coins_def Let_def bindE_def)
  with search_loop_quality[of "[]" "str_lower query" limit all_coins] assms(3)
  have "\<not> low_quality (str_lower (dict_get c ''symbol'' [])) (str_lower (dict_get c ''name'' []))"
    by simp
  with low_quality_str_lower show ?thesis by blast
qed

theorem search_excludes_low_quality_witness:
  "map_of MAJOR_COINS (str_lower ''LTC'') = None \<and>
   search_coins (Inr example_catalog) ''LTC'' 10 = Inr [mk_coin ''litecoin'' ''ltc'' ''Litecoin''] \<and>
   mk_coin ''litecoin'' ''ltc'' ''Litecoin'' \<in> set [mk_coin ''litecoin'' ''ltc'' ''Litecoin''] \<and>
   \<not> low_quality ''ltc'' ''Litecoin'' \<and>
   search_coins (Inr example_catalog) ''spam-coin-peg'' 10 = Inr [] \<and>
   search_coins (Inr example_catalog) ''wrapped-ltc'' 10 = Inr []"
proof -
  have m: "mk_coin ''litecoin'' ''ltc'' ''Litecoin'' \<in> set [mk_coin ''litecoin'' ''ltc'' ''Litecoin'']"
    by simp
  from search_excludes_low_quality[OF search_examples(1) search_examples(2) m]
  have "\<not> low_quality ''ltc'' ''Litecoin''"
    by (simp add: mk_coin_def dict_get_def)
  with search_examples m show ?thesis by simp
qed

section \<open>Claims about recording prices\<close>

text \<open>
  The loop returns its accumulator extended by one snapshot for every tracked coin whose
  price request succeeds, in the order of the tracked coins, and saves exactly these.
\<close>

lemma record_loop_result:
  assumes "record_loop get_price ts acc st = (prices, st')"
  shows "\<exists>new. prices = acc @ new \<and>
     map coin_id new = filter (\<lambda>c. \<not> isl (get_price c)) (map tc_coin_id ts) \<and>
     (\<forall>d \<in> set new. get_price (coin_id d) = Inr (price d)) \<and>
     price_docs st' = price_docs st @ new \<and> tracked st' = tracked st"
  using assms
proof (induction ts arbitrary: acc st)
  case Nil
  then show ?case by simp
next
  case (Cons t ts)
  show ?case
  proof (cases "get_price (tc_coin_id t)")
    case (Inl exc)
    with Cons.prems have "record_loop get_price ts acc st = (prices, st')"
      by (simp add: record_price_for_coin_def)
    from Cons.IH[OF this] Inl show ?thesis by auto
  next
    case (Inr p)
    define doc where "doc = \<lparr>coin_id = tc_coin_id t, price = p, timestamp = clock st\<rparr>"
    define st1 where "st1 = st\<lparr>price_docs := price_docs st @ [doc], clock := clock st + 1\<rparr>"
    from Cons.prems Inr have "record_loop get_price ts (acc @ [doc]) st1 = (prices, st')"
      by (simp add: record_price_for_coin_def Let_def doc_def st1_def)
    from Cons.IH[OF this] obtain new where new: "prices = (acc @ [doc]) @ new"
      "map coin_id new = filter (\<lambda>c. \<not> isl (get_price c)) (map tc_coin_id ts)"
      "\<forall>d \<in> set new. get_price (coin_id d) = Inr (price d)"
      "price_docs st' = price_docs st1 @ new" "tracked st' = tracked st1"
      by blast
    have "prices = acc @ (doc # new)" using new(1) by simp
    moreover have "map coin_id (doc # new)
        = filter (\<lambda>c. \<not> isl (get_price c)) (map tc_coin_id (t # ts))"
      using new(2) Inr by (simp add: doc_def)
    moreover have "\<forall>d \<in> set (doc # new). get_price (coin_id d) = Inr (price d)"
      using new(3) Inr by (simp add: doc_def)
    moreover have "price_docs st' = price_docs st @ (doc # new)"
      using new(4) by (simp add: st1_def)
    moreover have "tracked st' = tracked st"
      using new(5) by (simp add: st1_def)
    ultimately show ?thesis by blast
  qed
qed

lemma length_filter_others:
  assumes "distinct xs" "x \<in> set xs"
  shows "length (filter (\<lambda>y. y \<noteq> x) xs) = length xs - 1"
  using assms
proof (induction xs)
  case Nil
  then show ?case by simp
next
  case (Cons a xs)
  show ?case
  proof (cases "a = x")
    case True
    with Cons.prems have "filter (\<lambda>y. y \<noteq> x) xs = xs"
      by (auto simp: filter_id_conv)
    with True show ?thesis by simp
  next
    case False
    with Cons have "length (filter (\<lambda>y. y \<noteq> x) xs) = length xs - 1" "xs \<noteq> []"
      by auto
    with False show ?thesis by (cases xs) auto
  qed
qed

lemma example_run:
  "record_prices_for_all_tracked example_get_price example_state =
     ([\<lparr>coin_id = ''bitcoin'', price = 65000, timestamp = 0\<rparr>,
       \<lparr>coin_id = ''solana'', price = 150, timestamp = 1\<rparr>],
      example_state\<lparr>price_docs :=
         [\<lparr>coin_id = ''bitcoin'', price = 65000, timestamp = 0\<rparr>,
          \<lparr>coin_id = ''solana'', price = 150, timestamp = 1\<rparr>], clock := 2\<rparr>)"
  by (simp add: record_prices_for_all_tracked_def list_tracked_coins_def example_state_def
      example_get_price_def record_price_for_coin_def Let_def)

text \<open>
  C9. When the price request fails for exactly one of the tracked coins,
  \<^verbatim>\<open>record_prices_for_all_tracked\<close> still goes through all coins and returns the
  snapshots of all the others, one fewer than there are tracked coins, in the order of
  the tracked coins; the failure is not passed on to the caller.
\<close>

theorem batch_recording_survives_failure:
  assumes "distinct (map tc_coin_id (tracked st))"
    and "f \<in> set (tracked st)"
    and "get_price (tc_coin_id f) = Inl exc"
    and "\<forall>t \<in> set (tracked st). t \<noteq> f \<longrightarrow> (\<exists>p. get_price (tc_coin_id t) = Inr p)"
  shows "\<exists>prices st'.
     record_prices_for_all_tracked get_price st = (prices, st') \<and>
     map coin_id prices = map tc_coin_id (filter (\<lambda>t. t \<noteq> f) (tracked st)) \<and>
     length prices = length (tracked st) - 1 \<and>
     (\<forall>d \<in> set prices. get_price (coin_id d) = Inr (price d)) \<and>
     price_docs st' = price_docs st @ prices"
proof -
  obtain prices st' where run: "record_loop get_price (tracked st) [] st = (prices, st')"
    by (cases "record_loop get_price (tracked st) [] st") auto
  from assms(2) have ne: "tracked st \<noteq> []" by auto
  then have all: "record_prices_for_all_tracked get_price st = (prices, st')"
    by (simp add: record_prices_for_all_tracked_def list_tracked_coins_def Let_def run)
  from record_loop_result[OF run]
  have ids: "map coin_id prices = filter (\<lambda>c. \<not> isl (get_price c)) (map tc_coin_id (tracked st))"
    and ok: "\<forall>d \<in> set prices. get_price (coin_id d) = Inr (price d)"
    and docs: "price_docs st' = price_docs st @ prices"
    by auto
  have "\<forall>t \<in> set (tracked st). (\<not> isl (get_price (tc_coin_id t))) = (t \<noteq> f)"
    using assms(3,4) by auto
  then have flt: "filter (\<lambda>t. \<not> isl (get_price (tc_coin_id t))) (tracked st)
      = filter (\<lambda>t. t \<noteq> f) (tracked st)"
    by (simp cong: filter_cong)
  have ids': "map coin_id prices = map tc_coin_id (filter (\<lambda>t. t \<noteq> f) (tracked st))"
    unfolding ids filter_map flt[symmetric] by (simp add: comp_def)
  from assms(1) have "distinct (tracked st)" by (simp add: distinct_map)
  from length_filter_others[OF this assms(2)] ids'
  have "length prices = length (tracked st) - 1"
    by (metis length_map)
  with all ids' ok docs show ?thesis by blast
qed

theorem batch_recording_survives_failure_witness:
  "record_prices_for_all_tracked example_get_price example_state =
     ([\<lparr>coin_id = ''bitcoin'', price = 65000, timestamp = 0\<rparr>,
       \<lparr>coin_id = ''solana'', price = 150, timestamp = 1\<rparr>],
      example_state\<lparr>price_docs :=
         [\<lparr>coin_id = ''bitcoin'', price = 65000, timestamp = 0\<rparr>,
          \<lparr>coin_id = ''solana'', price = 150, timestamp = 1\<rparr>], clock := 2\<rparr>) \<and>
   example_get_price ''ethereum'' = Inl (RuntimeError ''API failed for ethereum'') \<and>
   length (fst (record_prices_for_all_tracked example_get_price example_state))
     = length (tracked example_state) - 1"
proof -
  let ?f = "\<lparr>tc_coin_id = ''ethereum'', tc_symbol = ''eth'', tc_name = ''Ethereum'',
             tc_is_active = True\<rparr>"
  have d: "distinct (map tc_coin_id (tracked example_state))"
    by (simp add: example_state_def)
  have m: "?f \<in> set (tracked example_state)"
    by (simp add: example_state_def)
  have e: "example_get_price (tc_coin_id ?f) = Inl (RuntimeError ''API failed for ethereum'')"
    by (simp add: example_get_price_def)
  have o: "\<forall>t \<in> set (tracked example_state). t \<noteq> ?f \<longrightarrow>
      (\<exists>p. example_get_price (tc_coin_id t) = Inr p)"
    by (simp add: example_state_def example_get_price_def)
  from batch_recording_survives_failure[OF d m e o]
  have "length (fst (record_prices_for_all_tracked example_get_price example_state))
     = length (tracked example_state) - 1"
    by auto
  with example_run e show ?thesis by simp
qed

end
